theory Spec2Isabelle
  imports Main "HOL-Library.Word" "HOL-Library.Sublist"
begin

section \<open>The registry contract (PreferedNetworkRegistry.sol)\<close>

text \<open>
  Solidity's \<^verbatim>\<open>address\<close> is a 160-bit value and \<^verbatim>\<open>uint\<close> is \<^verbatim>\<open>uint256\<close>.
  A mapping reads as 0 at every key that was never written, so the storage variable
  \<^verbatim>\<open>networkPreferences\<close> is a total function that starts as the constant 0.
  The emitted events are kept as a log, oldest first.
\<close>

type_synonym address = "160 word"
type_synonym uint = "256 word"

datatype event = NetworkPreferenceSet address uint

datatype error =
    Revert string      \<comment> \<open>a failed \<^verbatim>\<open>require\<close> of the contract, with its message\<close>
  | Error string       \<comment> \<open>\<^verbatim>\<open>throw new Error(msg)\<close> in the client\<close>
  | Rejected nat       \<comment> \<open>a rejection raised inside a collaborator (transport, signing, ...)\<close>

record registry =
  networkPreferences :: "address \<Rightarrow> uint"
  events :: "event list"

definition deployed :: registry where
  "deployed = \<lparr>networkPreferences = (\<lambda>_. 0), events = []\<rparr>"

text \<open>
  \<^verbatim>\<open>setPreferredNetwork(uint _network)\<close>, called by \<open>msg_sender\<close>. A failed
  \<^verbatim>\<open>require\<close> reverts: the result is the error and no state is returned.
\<close>

definition setPreferredNetwork_sol :: "address \<Rightarrow> uint \<Rightarrow> registry \<Rightarrow> error + registry" where
  "setPreferredNetwork_sol msg_sender network st =
     (if \<not> network > 0 then Inl (Revert ''Invalid network ID'')
      else Inr (st\<lparr>networkPreferences := (networkPreferences st)(msg_sender := network),
                   events := events st @ [NetworkPreferenceSet msg_sender network]\<rparr>))"

definition getPreferredNetwork_sol :: "registry \<Rightarrow> address \<Rightarrow> uint" where
  "getPreferredNetwork_sol st user = networkPreferences st user"

text \<open>
  The contract has one state-changing entry point, so a transaction is a sender and the
  argument of \<^verbatim>\<open>setPreferredNetwork\<close>. A reverted transaction leaves the storage and the
  log as they were. The reachable states are the ones \<open>transact\<close> reaches from
  \<open>deployed\<close>.
\<close>

datatype transaction = Tx (tx_sender: address) (tx_network: uint)

definition apply_tx :: "transaction \<Rightarrow> registry \<Rightarrow> registry" where
  "apply_tx t st =
     (case setPreferredNetwork_sol (tx_sender t) (tx_network t) st of
        Inl _ \<Rightarrow> st
      | Inr st' \<Rightarrow> st')"

definition transact :: "transaction list \<Rightarrow> registry \<Rightarrow> registry" where
  "transact txs st = fold apply_tx txs st"

text \<open>The transaction is a call of the setter by \<open>a\<close> that does not revert.\<close>

definition writes :: "address \<Rightarrow> transaction \<Rightarrow> bool" where
  "writes a t = (tx_sender t = a \<and> tx_network t > 0)"

section \<open>The client (PreferedNetworkRegistry.ts)\<close>

text \<open>
  The embedding follows the typed revision of the client, the one that declares the
  interface \<^verbatim>\<open>PreferedNetworkRegistryClient\<close>.

  A JavaScript value that may be missing is \<^verbatim>\<open>undefined\<close>, \<^verbatim>\<open>null\<close> or a value; the
  client tests with \<^verbatim>\<open>=== null\<close> and \<^verbatim>\<open>!== null\<close>, which tell the first two apart.
  Where only one of the two can occur it is \<open>None\<close> of an option: the result of
  \<^verbatim>\<open>getEnsAddress\<close> is an address or \<^verbatim>\<open>null\<close>, and element 0 of an array is the
  element or \<^verbatim>\<open>undefined\<close>.
\<close>

datatype 'a js = Undefined | Null | Value 'a

type_synonym hash = "256 word"
type_synonym callback = nat   \<comment> \<open>a function supplied by the caller, by identity\<close>
type_synonym unwatch = nat    \<comment> \<open>a function returned by \<^verbatim>\<open>watchContractEvent\<close>, by identity\<close>

datatype receipt = Receipt (transactionHash: hash) (included: bool)

record callbacks =
  onPreferredNetworkSet :: "callback js"
  onPaymentApproved :: "callback js"
  onNetworkChanged :: "callback js"
  onContractEvents :: "callback js"

text \<open>
  Of the configuration only \<^verbatim>\<open>callbacks?\<close> is read by the client's own code; the two
  connection parameters go to the constructors of the collaborators.
\<close>

record configuration =
  callbacks :: "callbacks js"

text \<open>\<^verbatim>\<open>configuration?.callbacks?.f\<close>: \<^verbatim>\<open>undefined\<close> unless \<^verbatim>\<open>callbacks\<close> is an object.\<close>

definition optional_callback :: "(callbacks \<Rightarrow> callback js) \<Rightarrow> configuration \<Rightarrow> callback js" where
  "optional_callback f cfg = (case callbacks cfg of Value cb \<Rightarrow> f cb | _ \<Rightarrow> Undefined)"

subsection \<open>\<^verbatim>\<open>Number\<close> of a bigint\<close>

text \<open>
  \<^verbatim>\<open>Number(b)\<close> of a bigint is the double nearest to \<open>b\<close>, ties going to the even
  significand. A double has 53 significant bits, and a \<^verbatim>\<open>uint256\<close> is far below the
  largest double, so for the values read from the contract the result is again a
  natural number: \<open>b\<close> itself below \<open>2 ^ 53\<close>, and otherwise \<open>b\<close> rounded to a
  multiple of \<open>2 ^ e\<close>, where \<open>e\<close> is the number of bits of \<open>b\<close> beyond 53.
\<close>

fun bit_length :: "nat \<Rightarrow> nat" where
  "bit_length n = (if n = 0 then 0 else Suc (bit_length (n div 2)))"

declare bit_length.simps [simp del]

definition js_Number :: "nat \<Rightarrow> nat" where
  "js_Number b =
     (if b < 2 ^ 53 then b
      else let e = bit_length b - 53;
               q = b div 2 ^ e;
               r = b mod 2 ^ e;
               half = 2 ^ (e - 1)
           in (if r < half \<or> (r = half \<and> even q) then q else q + 1) * 2 ^ e)"

subsection \<open>Collaborators\<close>

text \<open>
  The client is glue around the chain-access library: the public client, the wallet
  client and the contract handle. They are parameters of the model. Each call of a
  collaborator reads and changes the world outside the client (\<open>'w\<close>) and, where it
  returns a promise, either fulfils with a value or rejects with an error.
  \<^verbatim>\<open>watchContractEvent\<close> is synchronous and returns the cancellation function of the
  subscription it opens; failures of a subscription are reported through a callback. The
  cancellation function is declared as \<^verbatim>\<open>() => void\<close>; like any function it either
  returns or throws, and both are branches of the model.
\<close>

record 'w env =
  normalize :: "string \<Rightarrow> string"
  wallet_getAddresses :: "'w \<Rightarrow> (error + address list) \<times> 'w"
  publicClient_getEnsAddress :: "string \<Rightarrow> 'w \<Rightarrow> (error + address option) \<times> 'w"
  contract_read_getPreferredNetwork :: "address option \<Rightarrow> 'w \<Rightarrow> (error + uint) \<times> 'w"
  contract_write_setPreferredNetwork ::
    "int \<Rightarrow> address option \<Rightarrow> callback js \<Rightarrow> 'w \<Rightarrow> (error + hash) \<times> 'w"
  wallet_switchChain :: "nat \<Rightarrow> 'w \<Rightarrow> (error + unit) \<times> 'w"
  wallet_sendTransaction :: "address option \<Rightarrow> address \<Rightarrow> int \<Rightarrow> 'w \<Rightarrow> (error + hash) \<times> 'w"
  publicClient_waitForTransactionReceipt :: "hash \<Rightarrow> 'w \<Rightarrow> (error + receipt) \<times> 'w"
  publicClient_watchContractEvent :: "callback js \<Rightarrow> 'w \<Rightarrow> unwatch \<times> 'w"
  invoke_unwatch :: "unwatch \<Rightarrow> 'w \<Rightarrow> (error + unit) \<times> 'w"

text \<open>Every call of a collaborator is recorded, with its arguments, in the order issued.\<close>

datatype call =
    GetAddresses
  | GetEnsAddress string
  | ReadGetPreferredNetwork "address option"
  | WriteSetPreferredNetwork int "address option" "callback js"
  | SwitchChain nat
  | SendTransaction "address option" address int
  | WaitForTransactionReceipt hash
  | WatchContractEvent "callback js" unwatch
  | Unwatch unwatch

text \<open>
  The state of one client instance: the world its collaborators act on, the calls
  issued so far, and the array \<^verbatim>\<open>watchers\<close>.
\<close>

record 'w client =
  world :: 'w
  calls :: "call list"
  watchers :: "unwatch list"

type_synonym ('w, 'a) async = "'w client \<Rightarrow> (error + 'a) \<times> 'w client"

definition resolve :: "'a \<Rightarrow> ('w, 'a) async" where
  "resolve x s = (Inr x, s)"

definition throw :: "error \<Rightarrow> ('w, 'a) async" where
  "throw e s = (Inl e, s)"

text \<open>\<^verbatim>\<open>const x = await m; k(x)\<close>: a rejection of \<open>m\<close> skips the rest of the function.\<close>

definition await :: "('w, 'a) async \<Rightarrow> ('a \<Rightarrow> ('w, 'b) async) \<Rightarrow> ('w, 'b) async" where
  "await m k s = (case m s of (Inl e, s') \<Rightarrow> (Inl e, s') | (Inr x, s') \<Rightarrow> k x s')"

definition perform :: "call \<Rightarrow> ('w \<Rightarrow> (error + 'a) \<times> 'w) \<Rightarrow> ('w, 'a) async" where
  "perform c f s =
     (case f (world s) of (r, w') \<Rightarrow> (r, s\<lparr>world := w', calls := calls s @ [c]\<rparr>))"

subsection \<open>Operations\<close>

text \<open>\<^verbatim>\<open>(await wallet.getAddresses())[0]\<close>: \<^verbatim>\<open>undefined\<close> for the empty list.\<close>

definition first :: "'a list \<Rightarrow> 'a option" where
  "first xs = (case xs of [] \<Rightarrow> None | x # _ \<Rightarrow> Some x)"

definition getCurrentAddress :: "'w env \<Rightarrow> ('w, address option) async" where
  "getCurrentAddress env =
     await (perform GetAddresses (wallet_getAddresses env)) (\<lambda>addresses.
     resolve (first addresses))"

definition read_getPreferredNetwork :: "'w env \<Rightarrow> address option \<Rightarrow> ('w, uint) async" where
  "read_getPreferredNetwork env account =
     perform (ReadGetPreferredNetwork account) (contract_read_getPreferredNetwork env account)"

definition switchChain :: "'w env \<Rightarrow> nat \<Rightarrow> ('w, unit) async" where
  "switchChain env chain_id = perform (SwitchChain chain_id) (wallet_switchChain env chain_id)"

definition getEnsAddress :: "'w env \<Rightarrow> string \<Rightarrow> ('w, address option) async" where
  "getEnsAddress env name = perform (GetEnsAddress name) (publicClient_getEnsAddress env name)"

definition getPreferredNetwork :: "'w env \<Rightarrow> address \<Rightarrow> ('w, uint) async" where
  "getPreferredNetwork env address = read_getPreferredNetwork env (Some address)"

definition getPreferedNetworkFromENS :: "'w env \<Rightarrow> string \<Rightarrow> ('w, uint option) async" where
  "getPreferedNetworkFromENS env ens =
     await (getEnsAddress env (normalize env ''wevm.eth'')) (\<lambda>ensAddress.
     case ensAddress of
       None \<Rightarrow> resolve None
     | Some a \<Rightarrow> await (getPreferredNetwork env a) (\<lambda>network. resolve (Some network)))"

definition resolveCurrentPreferredNetwork :: "'w env \<Rightarrow> ('w, uint) async" where
  "resolveCurrentPreferredNetwork env =
     await (getCurrentAddress env) (\<lambda>account.
     read_getPreferredNetwork env account)"

definition switchToPreferredNetwork :: "'w env \<Rightarrow> ('w, unit) async" where
  "switchToPreferredNetwork env =
     await (getCurrentAddress env) (\<lambda>account.
     await (read_getPreferredNetwork env account) (\<lambda>network.
     switchChain env (js_Number (unat network))))"

definition setPreferredNetwork :: "'w env \<Rightarrow> configuration \<Rightarrow> int \<Rightarrow> ('w, hash) async" where
  "setPreferredNetwork env cfg network =
     await (getCurrentAddress env) (\<lambda>account.
     perform
       (WriteSetPreferredNetwork network account (optional_callback onPreferredNetworkSet cfg))
       (contract_write_setPreferredNetwork env network account
          (optional_callback onPreferredNetworkSet cfg)))"

definition payAddress :: "'w env \<Rightarrow> address \<Rightarrow> int \<Rightarrow> ('w, receipt) async" where
  "payAddress env to val =
     await (getCurrentAddress env) (\<lambda>account.
     await (perform (SendTransaction account to val) (wallet_sendTransaction env account to val))
       (\<lambda>hash.
     perform (WaitForTransactionReceipt hash) (publicClient_waitForTransactionReceipt env hash)))"

definition could_not_resolve :: "string \<Rightarrow> error" where
  "could_not_resolve name = Error (''Could not resolve address for ENS name: '' @ name)"

definition payENSAddress :: "'w env \<Rightarrow> string \<Rightarrow> int \<Rightarrow> ('w, receipt) async" where
  "payENSAddress env name val =
     await (getEnsAddress env name) (\<lambda>address.
     case address of
       None \<Rightarrow> throw (could_not_resolve name)
     | Some a \<Rightarrow> payAddress env a val)"

definition payOnPreferedNetwork :: "'w env \<Rightarrow> address \<Rightarrow> int \<Rightarrow> ('w, receipt) async" where
  "payOnPreferedNetwork env address val =
     await (getPreferredNetwork env address) (\<lambda>recipientPreferredNetwork.
     await (switchChain env (js_Number (unat recipientPreferredNetwork))) (\<lambda>_.
     payAddress env address val))"

definition payENSOnPreferedNetwork :: "'w env \<Rightarrow> string \<Rightarrow> int \<Rightarrow> ('w, receipt) async" where
  "payENSOnPreferedNetwork env name val =
     await (getEnsAddress env name) (\<lambda>address.
     case address of
       None \<Rightarrow> throw (could_not_resolve name)
     | Some a \<Rightarrow> payOnPreferedNetwork env a val)"

subsection \<open>Event subscriptions\<close>

definition startContractEventListeners :: "'w env \<Rightarrow> configuration \<Rightarrow> 'w client \<Rightarrow> 'w client" where
  "startContractEventListeners env cfg s =
     (if optional_callback onContractEvents cfg \<noteq> Null then
        (case publicClient_watchContractEvent env (optional_callback onContractEvents cfg) (world s) of
           (unwatch, w') \<Rightarrow>
             s\<lparr>world := w',
               calls := calls s @ [WatchContractEvent (optional_callback onContractEvents cfg) unwatch],
               watchers := watchers s @ [unwatch]\<rparr>)
      else s)"

text \<open>
  The first revision of the client, which the file also holds, tests the callback for
  truthiness, \<^verbatim>\<open>if (configuration.callbacks.onContractEvents)\<close>, on a configuration whose
  \<^verbatim>\<open>callbacks\<close> object is required. A function is truthy; \<^verbatim>\<open>undefined\<close> and \<^verbatim>\<open>null\<close>
  are not.
\<close>

definition truthy :: "callback js \<Rightarrow> bool" where
  "truthy v = (case v of Value _ \<Rightarrow> True | _ \<Rightarrow> False)"

definition startContractEventListeners_rev1 :: "'w env \<Rightarrow> callbacks \<Rightarrow> 'w client \<Rightarrow> 'w client" where
  "startContractEventListeners_rev1 env cbs s =
     (if truthy (onContractEvents cbs) then
        (case publicClient_watchContractEvent env (onContractEvents cbs) (world s) of
           (unwatch, w') \<Rightarrow>
             s\<lparr>world := w',
               calls := calls s @ [WatchContractEvent (onContractEvents cbs) unwatch],
               watchers := watchers s @ [unwatch]\<rparr>)
      else s)"

text \<open>
  \<^verbatim>\<open>watchers.forEach(unwatch => { unwatch() })\<close> calls the recorded cancellation
  functions in the order of the array. A function that throws ends the loop: the ones
  after it are not called.
\<close>

fun forEach_unwatch :: "'w env \<Rightarrow> unwatch list \<Rightarrow> 'w client \<Rightarrow> (error + unit) \<times> 'w client" where
  "forEach_unwatch env [] s = (Inr (), s)"
| "forEach_unwatch env (u # us) s =
     (case perform (Unwatch u) (invoke_unwatch env u) s of
        (Inl e, s') \<Rightarrow> (Inl e, s')
      | (Inr _, s') \<Rightarrow> forEach_unwatch env us s')"

text \<open>
  \<^verbatim>\<open>removeContractEventListeners\<close>: the loop, then \<^verbatim>\<open>watchers.length = 0\<close>. An
  error thrown in the loop leaves the function before the array is emptied.
\<close>

definition removeContractEventListeners :: "'w env \<Rightarrow> 'w client \<Rightarrow> (error + unit) \<times> 'w client" where
  "removeContractEventListeners env s =
     (case forEach_unwatch env (watchers s) s of
        (Inl e, s') \<Rightarrow> (Inl e, s')
      | (Inr _, s') \<Rightarrow> (Inr (), s'\<lparr>watchers := []\<rparr>))"

text \<open>
  The factory \<^verbatim>\<open>preferredNetworkRegistry(configuration)\<close>: it builds the
  collaborators, starts with an empty \<^verbatim>\<open>watchers\<close> array and calls
  \<^verbatim>\<open>startContractEventListeners()\<close> once before it returns the operations.
\<close>

definition preferredNetworkRegistry :: "'w env \<Rightarrow> configuration \<Rightarrow> 'w \<Rightarrow> 'w client" where
  "preferredNetworkRegistry env cfg w =
     startContractEventListeners env cfg \<lparr>world = w, calls = [], watchers = []\<rparr>"



subsection \<open>A local chain\<close>

text \<open>
  Collaborators for closed instances: a wallet holding the given accounts, a name
  service with the given registrations, and a chain that runs the registry contract
  itself. The world is the contract's state. A call that needs an account and gets
  \<^verbatim>\<open>undefined\<close>, or an argument that is not a \<^verbatim>\<open>uint256\<close>, is rejected.
\<close>

definition local_env :: "address list \<Rightarrow> (string \<Rightarrow> address option) \<Rightarrow> registry env" where
  "local_env accounts names =
     \<lparr>normalize = (\<lambda>name. name),
      wallet_getAddresses = (\<lambda>w. (Inr accounts, w)),
      publicClient_getEnsAddress = (\<lambda>name w. (Inr (names name), w)),
      contract_read_getPreferredNetwork = (\<lambda>account w.
        case account of
          None \<Rightarrow> (Inl (Rejected 0), w)
        | Some a \<Rightarrow> (Inr (getPreferredNetwork_sol w a), w)),
      contract_write_setPreferredNetwork = (\<lambda>network account onApproved w.
        case account of
          None \<Rightarrow> (Inl (Rejected 1), w)
        | Some a \<Rightarrow>
            if network < 0 \<or> 2 ^ 256 \<le> network then (Inl (Rejected 2), w)
            else (case setPreferredNetwork_sol a (word_of_int network) w of
                    Inl e \<Rightarrow> (Inl e, w)
                  | Inr w' \<Rightarrow> (Inr (of_nat (length (events w'))), w'))),
      wallet_switchChain = (\<lambda>chain_id w. (Inr (), w)),
      wallet_sendTransaction = (\<lambda>account to val w.
        case account of
          None \<Rightarrow> (Inl (Rejected 3), w)
        | Some a \<Rightarrow> (Inr 1, w)),
      publicClient_waitForTransactionReceipt = (\<lambda>hash w. (Inr (Receipt hash True), w)),
      publicClient_watchContractEvent = (\<lambda>onLogs w. (0, w)),
      invoke_unwatch = (\<lambda>u w. (Inr (), w))\<rparr>"


text \<open>Two name services: one with no registration, one where only \<^verbatim>\<open>alice.eth\<close> is bound.\<close>

definition no_names :: "string \<Rightarrow> address option" where
  "no_names name = None"

definition alice_only :: "string \<Rightarrow> address option" where
  "alice_only name = (if name = ''alice.eth'' then Some 11 else None)"

section \<open>Properties of the contract\<close>

lemma setPreferredNetwork_sol_zero:
  "setPreferredNetwork_sol a 0 st = Inl (Revert ''Invalid network ID'')"
  by (simp add: setPreferredNetwork_sol_def)

lemma setPreferredNetwork_sol_pos:
  "0 < n \<Longrightarrow> setPreferredNetwork_sol a n st =
     Inr (st\<lparr>networkPreferences := (networkPreferences st)(a := n),
             events := events st @ [NetworkPreferenceSet a n]\<rparr>)"
  by (simp add: setPreferredNetwork_sol_def)

lemma setPreferredNetwork_sol_succeeds_iff:
  "(\<exists>st'. setPreferredNetwork_sol a n st = Inr st') \<longleftrightarrow> 0 < n"
  by (simp add: setPreferredNetwork_sol_def)

lemma apply_tx_other:
  "\<not> writes a t \<Longrightarrow> networkPreferences (apply_tx t st) a = networkPreferences st a"
  by (cases t) (auto simp: apply_tx_def writes_def setPreferredNetwork_sol_def)

lemma transact_other:
  "list_all (\<lambda>t. \<not> writes a t) txs \<Longrightarrow>
     networkPreferences (transact txs st) a = networkPreferences st a"
  unfolding transact_def
proof (induction txs arbitrary: st)
  case Nil
  show ?case by simp
next
  case (Cons t txs)
  from Cons.prems have "\<not> writes a t" and rest: "list_all (\<lambda>t. \<not> writes a t) txs"
    by simp_all
  from Cons.IH [OF rest, of "apply_tx t st"] and apply_tx_other [OF \<open>\<not> writes a t\<close>]
  show ?case by simp
qed

text \<open>
  C1. For every account \<open>A\<close> and every positive \<open>n\<close>, \<^verbatim>\<open>setPreferredNetwork(n)\<close> sent by
  \<open>A\<close> succeeds, and after any further transactions among which \<open>A\<close> makes no write,
  \<^verbatim>\<open>getPreferredNetwork(A)\<close> returns \<open>n\<close>.
\<close>

theorem write_then_read:
  assumes "0 < n"
  shows "\<exists>st1. setPreferredNetwork_sol A n st = Inr st1 \<and>
           (\<forall>txs. list_all (\<lambda>t. \<not> writes A t) txs \<longrightarrow>
                  getPreferredNetwork_sol (transact txs st1) A = n)"
  using assms
  by (simp add: setPreferredNetwork_sol_pos getPreferredNetwork_sol_def transact_other)

theorem write_then_read_witness:
  "\<exists>st1. setPreferredNetwork_sol 10 5 deployed = Inr st1 \<and>
     list_all (\<lambda>t. \<not> writes 10 t) [Tx 11 7, Tx 10 0, Tx 12 1] \<and>
     getPreferredNetwork_sol (transact [Tx 11 7, Tx 10 0, Tx 12 1] st1) 10 = 5"
proof -
  have pos: "(0::uint) < 5" by simp
  have others: "list_all (\<lambda>t. \<not> writes 10 t) [Tx 11 7, Tx 10 0, Tx 12 1]"
    by (simp add: writes_def)
  from write_then_read [OF pos, of 10 deployed] others show ?thesis by blast
qed

text \<open>
  C5. In every reachable state of the contract, an account that never made a successful
  call of the setter reads as the unset sentinel 0.
\<close>

theorem unset_reads_zero:
  assumes "list_all (\<lambda>t. \<not> writes A t) txs"
  shows "getPreferredNetwork_sol (transact txs deployed) A = 0"
  using transact_other [OF assms, of deployed]
  by (simp add: getPreferredNetwork_sol_def deployed_def)

theorem unset_reads_zero_witness:
  "list_all (\<lambda>t. \<not> writes 10 t) [Tx 11 7, Tx 10 0, Tx 12 1] \<and>
   getPreferredNetwork_sol (transact [Tx 11 7, Tx 10 0, Tx 12 1] deployed) 10 = 0"
proof -
  have others: "list_all (\<lambda>t. \<not> writes 10 t) [Tx 11 7, Tx 10 0, Tx 12 1]"
    by (simp add: writes_def)
  from unset_reads_zero [OF others] others show ?thesis by simp
qed

text \<open>
  C9. A successful \<^verbatim>\<open>setPreferredNetwork(n)\<close> by \<open>A\<close> (every call with positive \<open>n\<close> is
  one) stores \<open>n\<close> in the entry of \<open>A\<close>, leaves the entry of every other account as it
  was, and appends exactly the event \<^verbatim>\<open>NetworkPreferenceSet(A, n)\<close> to the log.
\<close>

theorem set_updates_only_sender:
  assumes "0 < n"
  shows "\<exists>st'. setPreferredNetwork_sol A n st = Inr st' \<and>
           networkPreferences st' A = n \<and>
           (\<forall>B. B \<noteq> A \<longrightarrow> networkPreferences st' B = networkPreferences st B) \<and>
           events st' = events st @ [NetworkPreferenceSet A n]"
  using assms by (simp add: setPreferredNetwork_sol_pos)

theorem set_updates_only_sender_witness:
  "\<exists>st'. setPreferredNetwork_sol 10 5 (transact [Tx 11 7] deployed) = Inr st' \<and>
     networkPreferences st' 10 = 5 \<and>
     networkPreferences st' 11 = 7 \<and>
     events st' = [NetworkPreferenceSet 11 7, NetworkPreferenceSet 10 5]"
proof -
  have pos: "(0::uint) < 5" by simp
  have before: "networkPreferences (transact [Tx 11 7] deployed) 11 = 7"
    "events (transact [Tx 11 7] deployed) = [NetworkPreferenceSet 11 7]"
    by (simp_all add: transact_def apply_tx_def setPreferredNetwork_sol_def deployed_def)
  have ne: "(11::address) \<noteq> 10" by simp
  from set_updates_only_sender [OF pos, of 10 "transact [Tx 11 7] deployed"] before ne
  show ?thesis by auto
qed

section \<open>Properties of the client\<close>

lemmas async_defs = await_def perform_def resolve_def throw_def getCurrentAddress_def
  read_getPreferredNetwork_def switchChain_def getEnsAddress_def getPreferredNetwork_def

lemmas local_defs = local_env_def first_def transact_def apply_tx_def
  setPreferredNetwork_sol_def getPreferredNetwork_sol_def deployed_def
  no_names_def alice_only_def

subsection \<open>Setting the preference\<close>

text \<open>
  C2. The contract rejects the argument 0 for every caller and in every state, and the
  client's \<^verbatim>\<open>setPreferredNetwork\<close> hands the rejection of the contract call to its
  caller as it is: it issues \<^verbatim>\<open>getAddresses\<close> and the write, and its result is the
  error of the write. A rejection of \<^verbatim>\<open>getAddresses\<close> reaches the caller in the same
  way, before any write is issued.
\<close>

theorem zero_rejected:
  "setPreferredNetwork_sol sender 0 st = Inl (Revert ''Invalid network ID'') \<and>
   (wallet_getAddresses env (world s) = (Inr as, w1) \<longrightarrow>
    contract_write_setPreferredNetwork env 0 (first as)
      (optional_callback onPreferredNetworkSet cfg) w1 = (Inl e, w2) \<longrightarrow>
    setPreferredNetwork env cfg 0 s =
      (Inl e, s\<lparr>world := w2,
                 calls := calls s @ [GetAddresses,
                   WriteSetPreferredNetwork 0 (first as)
                     (optional_callback onPreferredNetworkSet cfg)]\<rparr>)) \<and>
   (wallet_getAddresses env (world s) = (Inl e, w1) \<longrightarrow>
    setPreferredNetwork env cfg 0 s = (Inl e, s\<lparr>world := w1, calls := calls s @ [GetAddresses]\<rparr>))"
  by (simp add: setPreferredNetwork_sol_zero setPreferredNetwork_def async_defs)

theorem zero_rejected_witness:
  "setPreferredNetwork_sol 10 0 deployed = Inl (Revert ''Invalid network ID'') \<and>
   setPreferredNetwork (local_env [10] no_names) \<lparr>callbacks = Undefined\<rparr> 0
       \<lparr>world = deployed, calls = [], watchers = []\<rparr> =
     (Inl (Revert ''Invalid network ID''),
      \<lparr>world = deployed,
       calls = [GetAddresses, WriteSetPreferredNetwork 0 (Some 10) Undefined],
       watchers = []\<rparr>) \<and>
   setPreferredNetwork
       ((local_env [10] no_names)\<lparr>wallet_getAddresses := (\<lambda>w. (Inl (Rejected 7), w))\<rparr>)
       \<lparr>callbacks = Undefined\<rparr> 0 \<lparr>world = deployed, calls = [], watchers = []\<rparr> =
     (Inl (Rejected 7), \<lparr>world = deployed, calls = [GetAddresses], watchers = []\<rparr>)"
proof -
  let ?s = "\<lparr>world = deployed, calls = [], watchers = []\<rparr>"
  let ?cfg = "\<lparr>callbacks = Undefined\<rparr>"
  let ?env = "local_env [10] no_names"
  let ?off = "?env\<lparr>wallet_getAddresses := (\<lambda>w. (Inl (Rejected 7), w))\<rparr>"
  have 1: "wallet_getAddresses ?env (world ?s) = (Inr [10], deployed)"
    by (simp add: local_env_def)
  have 2: "contract_write_setPreferredNetwork ?env 0 (first [10])
      (optional_callback onPreferredNetworkSet ?cfg) deployed =
      (Inl (Revert ''Invalid network ID''), deployed)"
    by (simp add: local_env_def first_def setPreferredNetwork_sol_def)
  have 3: "wallet_getAddresses ?off (world ?s) = (Inl (Rejected 7), deployed)"
    by simp
  from zero_rejected [of 10 deployed ?env ?s "[10]" deployed ?cfg "Revert ''Invalid network ID''" deployed] 1 2
  have a: "setPreferredNetwork_sol 10 0 deployed = Inl (Revert ''Invalid network ID'')"
    and b: "setPreferredNetwork ?env ?cfg 0 ?s =
      (Inl (Revert ''Invalid network ID''), ?s\<lparr>world := deployed,
         calls := calls ?s @ [GetAddresses, WriteSetPreferredNetwork 0 (first [10])
                     (optional_callback onPreferredNetworkSet ?cfg)]\<rparr>)"
    by blast+
  from zero_rejected [of 10 deployed ?off ?s "[]" deployed ?cfg "Rejected 7" deployed] 3
  have c: "setPreferredNetwork ?off ?cfg 0 ?s =
      (Inl (Rejected 7), ?s\<lparr>world := deployed, calls := calls ?s @ [GetAddresses]\<rparr>)"
    by blast
  from a b c show ?thesis
    by (simp add: first_def optional_callback_def)
qed

subsection \<open>Names\<close>

text \<open>
  C3. When the resolver answers \<^verbatim>\<open>null\<close> for the name, \<^verbatim>\<open>payENSAddress\<close> throws the
  error "Could not resolve address for ENS name: " followed by the name, and the only
  call it has issued is the resolution: no \<^verbatim>\<open>sendTransaction\<close>. The same holds for
  \<^verbatim>\<open>payENSOnPreferedNetwork\<close>.
\<close>

theorem unresolved_name_not_paid:
  assumes "publicClient_getEnsAddress env name (world s) = (Inr None, w1)"
  shows "payENSAddress env name v s =
           (Inl (Error (''Could not resolve address for ENS name: '' @ name)),
            s\<lparr>world := w1, calls := calls s @ [GetEnsAddress name]\<rparr>) \<and>
         payENSOnPreferedNetwork env name v s =
           (Inl (Error (''Could not resolve address for ENS name: '' @ name)),
            s\<lparr>world := w1, calls := calls s @ [GetEnsAddress name]\<rparr>)"
  using assms
  by (simp add: payENSAddress_def payENSOnPreferedNetwork_def could_not_resolve_def async_defs)

theorem unresolved_name_not_paid_witness:
  "payENSAddress (local_env [10] no_names) ''bob.eth'' 100
       \<lparr>world = deployed, calls = [], watchers = []\<rparr> =
     (Inl (Error ''Could not resolve address for ENS name: bob.eth''),
      \<lparr>world = deployed, calls = [GetEnsAddress ''bob.eth''], watchers = []\<rparr>) \<and>
   payENSOnPreferedNetwork (local_env [10] no_names) ''bob.eth'' 100
       \<lparr>world = deployed, calls = [], watchers = []\<rparr> =
     (Inl (Error ''Could not resolve address for ENS name: bob.eth''),
      \<lparr>world = deployed, calls = [GetEnsAddress ''bob.eth''], watchers = []\<rparr>)"
proof -
  have absent: "publicClient_getEnsAddress (local_env [10] no_names) ''bob.eth''
      (world \<lparr>world = deployed, calls = [], watchers = []\<rparr>) = (Inr None, deployed)"
    by (simp add: local_env_def no_names_def)
  from unresolved_name_not_paid [OF absent, of 100] show ?thesis by simp
qed

text \<open>
  \<^verbatim>\<open>getPreferedNetworkFromENS(ens)\<close> never reads its argument: the name it resolves
  is \<^verbatim>\<open>normalize('wevm.eth')\<close>.
\<close>

lemma getPreferedNetworkFromENS_any_name:
  "getPreferedNetworkFromENS env ens = getPreferedNetworkFromENS env ens'"
  by (simp add: getPreferedNetworkFromENS_def)

text \<open>
  C4. The claim is that the operation returns the stored preference of the account the
  given name resolves to. Here \<^verbatim>\<open>alice.eth\<close> resolves to account 11, whose stored
  preference is 5, and \<^verbatim>\<open>wevm.eth\<close> is not registered: the operation asks the resolver
  for \<^verbatim>\<open>wevm.eth\<close> and returns \<^verbatim>\<open>null\<close>.
\<close>

theorem getPreferedNetworkFromENS_fixed_name:
  "getPreferedNetworkFromENS (local_env [10] alice_only) ''alice.eth''
       \<lparr>world = transact [Tx 11 5] deployed, calls = [], watchers = []\<rparr> =
     (Inr None,
      \<lparr>world = transact [Tx 11 5] deployed, calls = [GetEnsAddress ''wevm.eth''],
       watchers = []\<rparr>) \<and>
   getPreferredNetwork_sol (transact [Tx 11 5] deployed) 11 = 5"
  by (simp add: getPreferedNetworkFromENS_def async_defs local_defs)

subsection \<open>Paying on the preferred network\<close>

lemma payOnPreferedNetwork_prefix:
  "\<exists>issued (p::uint) account h.
      calls (snd (payOnPreferedNetwork env A v s)) = calls s @ issued \<and> issued \<noteq> [] \<and>
      prefix issued
        [ReadGetPreferredNetwork (Some A), SwitchChain (js_Number (unat p)), GetAddresses,
         SendTransaction account A v, WaitForTransactionReceipt h]"
  by (auto simp: payOnPreferedNetwork_def payAddress_def async_defs split: prod.splits sum.splits)

lemma payOnPreferedNetwork_run:
  "contract_read_getPreferredNetwork env (Some A) (world s) = (Inr p, w1) \<Longrightarrow>
   wallet_switchChain env (js_Number (unat p)) w1 = (Inr (), w2) \<Longrightarrow>
   wallet_getAddresses env w2 = (Inr as, w3) \<Longrightarrow>
   wallet_sendTransaction env (first as) A v w3 = (Inr h, w4) \<Longrightarrow>
   publicClient_waitForTransactionReceipt env h w4 = (r, w5) \<Longrightarrow>
   payOnPreferedNetwork env A v s =
     (r, s\<lparr>world := w5,
            calls := calls s @
              [ReadGetPreferredNetwork (Some A), SwitchChain (js_Number (unat p)), GetAddresses,
               SendTransaction (first as) A v, WaitForTransactionReceipt h]\<rparr>)"
  by (simp add: payOnPreferedNetwork_def payAddress_def async_defs)

text \<open>
  C6, as stated: exactly two calls, the read of the preference of \<open>A\<close> and then the
  payment. On the local chain, with account 11 holding the preference 5, the operation
  issues five calls; between the read and the payment the wallet is switched to
  chain 5.
\<close>

theorem payOnPreferedNetwork_five_calls:
  "calls (snd (payOnPreferedNetwork (local_env [10] no_names) 11 100
      \<lparr>world = transact [Tx 11 5] deployed, calls = [], watchers = []\<rparr>)) =
     [ReadGetPreferredNetwork (Some 11), SwitchChain 5, GetAddresses,
      SendTransaction (Some 10) 11 100, WaitForTransactionReceipt 1] \<and>
   length (calls (snd (payOnPreferedNetwork (local_env [10] no_names) 11 100
      \<lparr>world = transact [Tx 11 5] deployed, calls = [], watchers = []\<rparr>))) \<noteq> 2"
  by (simp add: payOnPreferedNetwork_def payAddress_def async_defs local_defs js_Number_def)

lemma payOnPreferedNetwork_read_rejected:
  "contract_read_getPreferredNetwork env (Some A) (world s) = (Inl e, w1) \<Longrightarrow>
   payOnPreferedNetwork env A v s =
     (Inl e, s\<lparr>world := w1, calls := calls s @ [ReadGetPreferredNetwork (Some A)]\<rparr>)"
  by (simp add: payOnPreferedNetwork_def async_defs)

lemma payOnPreferedNetwork_switch_rejected:
  "contract_read_getPreferredNetwork env (Some A) (world s) = (Inr p, w1) \<Longrightarrow>
   wallet_switchChain env (js_Number (unat p)) w1 = (Inl e, w2) \<Longrightarrow>
   payOnPreferedNetwork env A v s =
     (Inl e, s\<lparr>world := w2,
                calls := calls s @
                  [ReadGetPreferredNetwork (Some A), SwitchChain (js_Number (unat p))]\<rparr>)"
  by (simp add: payOnPreferedNetwork_def async_defs)

lemma payOnPreferedNetwork_getAddresses_rejected:
  "contract_read_getPreferredNetwork env (Some A) (world s) = (Inr p, w1) \<Longrightarrow>
   wallet_switchChain env (js_Number (unat p)) w1 = (Inr (), w2) \<Longrightarrow>
   wallet_getAddresses env w2 = (Inl e, w3) \<Longrightarrow>
   payOnPreferedNetwork env A v s =
     (Inl e, s\<lparr>world := w3,
                calls := calls s @
                  [ReadGetPreferredNetwork (Some A), SwitchChain (js_Number (unat p)),
                   GetAddresses]\<rparr>)"
  by (simp add: payOnPreferedNetwork_def payAddress_def async_defs)

lemma payOnPreferedNetwork_send_rejected:
  "contract_read_getPreferredNetwork env (Some A) (world s) = (Inr p, w1) \<Longrightarrow>
   wallet_switchChain env (js_Number (unat p)) w1 = (Inr (), w2) \<Longrightarrow>
   wallet_getAddresses env w2 = (Inr as, w3) \<Longrightarrow>
   wallet_sendTransaction env (first as) A v w3 = (Inl e, w4) \<Longrightarrow>
   payOnPreferedNetwork env A v s =
     (Inl e, s\<lparr>world := w4,
                calls := calls s @
                  [ReadGetPreferredNetwork (Some A), SwitchChain (js_Number (unat p)),
                   GetAddresses, SendTransaction (first as) A v]\<rparr>)"
  by (simp add: payOnPreferedNetwork_def payAddress_def async_defs)

text \<open>
  C6, amended. \<^verbatim>\<open>payOnPreferedNetwork(A, v)\<close> issues its calls in one fixed order,
  each only after the one before it has succeeded: the read of the preference of \<open>A\<close>,
  the switch of the wallet to \<^verbatim>\<open>Number\<close> of that preference, and the payment, which is
  \<^verbatim>\<open>getAddresses\<close>, \<^verbatim>\<open>sendTransaction\<close> to \<open>A\<close> with the value \<open>v\<close>, and
  \<^verbatim>\<open>waitForTransactionReceipt\<close> for the hash the transaction returned. When one of the
  first four is rejected, the operation is rejected with that error and has issued the
  calls up to the rejected one and none after it. When none of them is rejected, it has
  issued all five and its result is the result of the wait. In every case the calls
  issued are a non-empty prefix of the sequence.
\<close>

theorem payOnPreferedNetwork_calls:
  "(\<exists>issued (p::uint) account h.
      calls (snd (payOnPreferedNetwork env A v s)) = calls s @ issued \<and> issued \<noteq> [] \<and>
      prefix issued
        [ReadGetPreferredNetwork (Some A), SwitchChain (js_Number (unat p)), GetAddresses,
         SendTransaction account A v, WaitForTransactionReceipt h]) \<and>
   (contract_read_getPreferredNetwork env (Some A) (world s) = (Inl e, w1) \<longrightarrow>
    payOnPreferedNetwork env A v s =
      (Inl e, s\<lparr>world := w1, calls := calls s @ [ReadGetPreferredNetwork (Some A)]\<rparr>)) \<and>
   (contract_read_getPreferredNetwork env (Some A) (world s) = (Inr p, w1) \<longrightarrow>
    (wallet_switchChain env (js_Number (unat p)) w1 = (Inl e, w2) \<longrightarrow>
     payOnPreferedNetwork env A v s =
       (Inl e, s\<lparr>world := w2,
                  calls := calls s @
                    [ReadGetPreferredNetwork (Some A), SwitchChain (js_Number (unat p))]\<rparr>)) \<and>
    (wallet_switchChain env (js_Number (unat p)) w1 = (Inr (), w2) \<longrightarrow>
     (wallet_getAddresses env w2 = (Inl e, w3) \<longrightarrow>
      payOnPreferedNetwork env A v s =
        (Inl e, s\<lparr>world := w3,
                   calls := calls s @
                     [ReadGetPreferredNetwork (Some A), SwitchChain (js_Number (unat p)),
                      GetAddresses]\<rparr>)) \<and>
     (wallet_getAddresses env w2 = (Inr as, w3) \<longrightarrow>
      (wallet_sendTransaction env (first as) A v w3 = (Inl e, w4) \<longrightarrow>
       payOnPreferedNetwork env A v s =
         (Inl e, s\<lparr>world := w4,
                    calls := calls s @
                      [ReadGetPreferredNetwork (Some A), SwitchChain (js_Number (unat p)),
                       GetAddresses, SendTransaction (first as) A v]\<rparr>)) \<and>
      (wallet_sendTransaction env (first as) A v w3 = (Inr h, w4) \<longrightarrow>
       publicClient_waitForTransactionReceipt env h w4 = (r, w5) \<longrightarrow>
       payOnPreferedNetwork env A v s =
         (r, s\<lparr>world := w5,
                calls := calls s @
                  [ReadGetPreferredNetwork (Some A), SwitchChain (js_Number (unat p)),
                   GetAddresses, SendTransaction (first as) A v,
                   WaitForTransactionReceipt h]\<rparr>)))))"
  using payOnPreferedNetwork_prefix [of env A v s]
    payOnPreferedNetwork_read_rejected [of env A s e w1 v]
    payOnPreferedNetwork_switch_rejected [of env A s p w1 e w2 v]
    payOnPreferedNetwork_getAddresses_rejected [of env A s p w1 w2 e w3 v]
    payOnPreferedNetwork_send_rejected [of env A s p w1 w2 as w3 v e w4]
    payOnPreferedNetwork_run [of env A s p w1 w2 as w3 v h w4 r w5]
  by blast

theorem payOnPreferedNetwork_calls_witness:
  "payOnPreferedNetwork (local_env [10, 13] no_names) 12 250
       \<lparr>world = transact [Tx 12 7] deployed, calls = [GetAddresses], watchers = []\<rparr> =
     (Inr (Receipt 1 True),
      \<lparr>world = transact [Tx 12 7] deployed,
       calls = [GetAddresses, ReadGetPreferredNetwork (Some 12), SwitchChain 7, GetAddresses,
                SendTransaction (Some 10) 12 250, WaitForTransactionReceipt 1],
       watchers = []\<rparr>) \<and>
   payOnPreferedNetwork
       ((local_env [10, 13] no_names)
          \<lparr>contract_read_getPreferredNetwork := (\<lambda>account w. (Inl (Rejected 6), w))\<rparr>) 12 250
       \<lparr>world = transact [Tx 12 7] deployed, calls = [GetAddresses], watchers = []\<rparr> =
     (Inl (Rejected 6),
      \<lparr>world = transact [Tx 12 7] deployed,
       calls = [GetAddresses, ReadGetPreferredNetwork (Some 12)],
       watchers = []\<rparr>) \<and>
   payOnPreferedNetwork
       ((local_env [10, 13] no_names)
          \<lparr>wallet_switchChain := (\<lambda>chain_id w. (Inl (Rejected 7), w))\<rparr>) 12 250
       \<lparr>world = transact [Tx 12 7] deployed, calls = [GetAddresses], watchers = []\<rparr> =
     (Inl (Rejected 7),
      \<lparr>world = transact [Tx 12 7] deployed,
       calls = [GetAddresses, ReadGetPreferredNetwork (Some 12), SwitchChain 7],
       watchers = []\<rparr>) \<and>
   payOnPreferedNetwork
       ((local_env [10, 13] no_names)
          \<lparr>wallet_getAddresses := (\<lambda>w. (Inl (Rejected 8), w))\<rparr>) 12 250
       \<lparr>world = transact [Tx 12 7] deployed, calls = [GetAddresses], watchers = []\<rparr> =
     (Inl (Rejected 8),
      \<lparr>world = transact [Tx 12 7] deployed,
       calls = [GetAddresses, ReadGetPreferredNetwork (Some 12), SwitchChain 7, GetAddresses],
       watchers = []\<rparr>) \<and>
   payOnPreferedNetwork
       ((local_env [10, 13] no_names)
          \<lparr>wallet_sendTransaction := (\<lambda>account to val w. (Inl (Rejected 9), w))\<rparr>) 12 250
       \<lparr>world = transact [Tx 12 7] deployed, calls = [GetAddresses], watchers = []\<rparr> =
     (Inl (Rejected 9),
      \<lparr>world = transact [Tx 12 7] deployed,
       calls = [GetAddresses, ReadGetPreferredNetwork (Some 12), SwitchChain 7, GetAddresses,
                SendTransaction (Some 10) 12 250],
       watchers = []\<rparr>)"
proof -
  let ?env = "local_env [10, 13] no_names"
  let ?no_read = "?env\<lparr>contract_read_getPreferredNetwork := (\<lambda>account w. (Inl (Rejected 6), w))\<rparr>"
  let ?no_switch = "?env\<lparr>wallet_switchChain := (\<lambda>chain_id w. (Inl (Rejected 7), w))\<rparr>"
  let ?no_wallet = "?env\<lparr>wallet_getAddresses := (\<lambda>w. (Inl (Rejected 8), w))\<rparr>"
  let ?no_send = "?env\<lparr>wallet_sendTransaction := (\<lambda>account to val w. (Inl (Rejected 9), w))\<rparr>"
  let ?w = "transact [Tx 12 7] deployed"
  let ?s = "\<lparr>world = ?w, calls = [GetAddresses], watchers = []\<rparr>"
  have seven: "js_Number (unat (7::uint)) = 7"
    by (simp add: js_Number_def)
  have read: "contract_read_getPreferredNetwork ?env (Some 12) (world ?s) = (Inr 7, ?w)"
    "contract_read_getPreferredNetwork ?no_switch (Some 12) (world ?s) = (Inr 7, ?w)"
    "contract_read_getPreferredNetwork ?no_wallet (Some 12) (world ?s) = (Inr 7, ?w)"
    "contract_read_getPreferredNetwork ?no_send (Some 12) (world ?s) = (Inr 7, ?w)"
    by (simp_all add: local_defs)
  have no_read: "contract_read_getPreferredNetwork ?no_read (Some 12) (world ?s) =
      (Inl (Rejected 6), ?w)"
    by simp
  have switch: "wallet_switchChain ?env (js_Number (unat (7::uint))) ?w = (Inr (), ?w)"
    "wallet_switchChain ?no_wallet (js_Number (unat (7::uint))) ?w = (Inr (), ?w)"
    "wallet_switchChain ?no_send (js_Number (unat (7::uint))) ?w = (Inr (), ?w)"
    by (simp_all add: local_env_def)
  have no_switch: "wallet_switchChain ?no_switch (js_Number (unat (7::uint))) ?w =
      (Inl (Rejected 7), ?w)"
    by simp
  have wallet: "wallet_getAddresses ?env ?w = (Inr [10, 13], ?w)"
    "wallet_getAddresses ?no_send ?w = (Inr [10, 13], ?w)"
    by (simp_all add: local_env_def)
  have no_wallet: "wallet_getAddresses ?no_wallet ?w = (Inl (Rejected 8), ?w)"
    by simp
  have send: "wallet_sendTransaction ?env (first [10, 13]) 12 250 ?w = (Inr 1, ?w)"
    by (simp add: local_env_def first_def)
  have no_send: "wallet_sendTransaction ?no_send (first [10, 13]) 12 250 ?w =
      (Inl (Rejected 9), ?w)"
    by simp
  have wait: "publicClient_waitForTransactionReceipt ?env 1 ?w = (Inr (Receipt 1 True), ?w)"
    by (simp add: local_env_def)
  from payOnPreferedNetwork_calls
      [of ?env 12 250 ?s "Rejected 0" ?w 7 ?w ?w "[10, 13]" ?w 1 "Inr (Receipt 1 True)" ?w]
    read(1) switch(1) wallet(1) send wait
  have a: "payOnPreferedNetwork ?env 12 250 ?s =
      (Inr (Receipt 1 True), ?s\<lparr>world := ?w,
         calls := calls ?s @
           [ReadGetPreferredNetwork (Some 12), SwitchChain (js_Number (unat (7::uint))),
            GetAddresses, SendTransaction (first [10, 13]) 12 250,
            WaitForTransactionReceipt 1]\<rparr>)"
    by blast
  from payOnPreferedNetwork_calls [of ?no_read 12 250 ?s "Rejected 6" ?w] no_read
  have b: "payOnPreferedNetwork ?no_read 12 250 ?s =
      (Inl (Rejected 6), ?s\<lparr>world := ?w,
         calls := calls ?s @ [ReadGetPreferredNetwork (Some 12)]\<rparr>)"
    by blast
  from payOnPreferedNetwork_calls [of ?no_switch 12 250 ?s "Rejected 7" ?w 7 ?w] read(2) no_switch
  have c: "payOnPreferedNetwork ?no_switch 12 250 ?s =
      (Inl (Rejected 7), ?s\<lparr>world := ?w,
         calls := calls ?s @
           [ReadGetPreferredNetwork (Some 12), SwitchChain (js_Number (unat (7::uint)))]\<rparr>)"
    by blast
  from payOnPreferedNetwork_calls [of ?no_wallet 12 250 ?s "Rejected 8" ?w 7 ?w ?w]
    read(3) switch(2) no_wallet
  have d: "payOnPreferedNetwork ?no_wallet 12 250 ?s =
      (Inl (Rejected 8), ?s\<lparr>world := ?w,
         calls := calls ?s @
           [ReadGetPreferredNetwork (Some 12), SwitchChain (js_Number (unat (7::uint))),
            GetAddresses]\<rparr>)"
    by blast
  from payOnPreferedNetwork_calls [of ?no_send 12 250 ?s "Rejected 9" ?w 7 ?w ?w "[10, 13]" ?w]
    read(4) switch(3) wallet(2) no_send
  have e: "payOnPreferedNetwork ?no_send 12 250 ?s =
      (Inl (Rejected 9), ?s\<lparr>world := ?w,
         calls := calls ?s @
           [ReadGetPreferredNetwork (Some 12), SwitchChain (js_Number (unat (7::uint))),
            GetAddresses, SendTransaction (first [10, 13]) 12 250]\<rparr>)"
    by blast
  have f: "first [10 :: address, 13] = Some 10"
    by (simp add: first_def)
  from a b c d e show ?thesis
    unfolding seven f by simp
qed

subsection \<open>Event subscriptions\<close>





text \<open>
  When a cancellation function throws, \<^verbatim>\<open>removeContractEventListeners\<close> throws the same
  error and \<^verbatim>\<open>watchers\<close> keeps its elements.
\<close>

lemma removeContractEventListeners_handle_throws:
  "watchers s = u # us \<Longrightarrow> invoke_unwatch env u (world s) = (Inl e, w') \<Longrightarrow>
   removeContractEventListeners env s =
     (Inl e, s\<lparr>world := w', calls := calls s @ [Unwatch u]\<rparr>)"
  by (simp add: removeContractEventListeners_def perform_def)



lemma subscription_opened_iff:
  "watchers (preferredNetworkRegistry env cfg w) \<noteq> [] \<longleftrightarrow>
     optional_callback onContractEvents cfg \<noteq> Null"
  by (simp add: preferredNetworkRegistry_def startContractEventListeners_def split: prod.splits)

lemma subscription_opened_rev1_iff:
  "watchers (startContractEventListeners_rev1 env cbs \<lparr>world = w, calls = [], watchers = []\<rparr>) \<noteq> [] \<longleftrightarrow>
     (\<exists>f. onContractEvents cbs = Value f)"
  by (simp add: startContractEventListeners_rev1_def truthy_def split: prod.splits js.splits)

text \<open>
  C8. The claim is that construction opens a subscription if and only if a log callback
  was supplied. The test in \<^verbatim>\<open>startContractEventListeners\<close> is
  \<^verbatim>\<open>configuration?.callbacks?.onContractEvents !== null\<close>, and a callback that was not
  supplied is \<^verbatim>\<open>undefined\<close>, which is not \<^verbatim>\<open>null\<close>. So a client built without
  \<^verbatim>\<open>callbacks\<close>, or with callbacks that have no \<^verbatim>\<open>onContractEvents\<close>, opens a
  subscription whose \<^verbatim>\<open>onLogs\<close> is \<^verbatim>\<open>undefined\<close> and records its cancellation
  function.
\<close>

theorem subscription_without_callback:
  "preferredNetworkRegistry (local_env [10] no_names) \<lparr>callbacks = Undefined\<rparr> deployed =
     \<lparr>world = deployed, calls = [WatchContractEvent Undefined 0], watchers = [0]\<rparr> \<and>
   preferredNetworkRegistry (local_env [10] no_names)
       \<lparr>callbacks = Value \<lparr>onPreferredNetworkSet = Value 1, onPaymentApproved = Undefined,
                           onNetworkChanged = Undefined, onContractEvents = Undefined\<rparr>\<rparr>
       deployed =
     \<lparr>world = deployed, calls = [WatchContractEvent Undefined 0], watchers = [0]\<rparr>"
  by (simp add: preferredNetworkRegistry_def startContractEventListeners_def
      optional_callback_def local_env_def)

subsection \<open>The chain id of a switch\<close>

lemma bit_length_bounds:
  "0 < n \<Longrightarrow> 2 ^ (bit_length n - 1) \<le> n \<and> n < 2 ^ bit_length n"
proof (induction n rule: bit_length.induct)
  case (1 n)
  show ?case
  proof (cases "n div 2 = 0")
    case True
    with "1.prems" have "n = 1" by (simp add: div_eq_0_iff) 
    then show ?thesis by (simp add: bit_length.simps)
  next
    case False
    then have pos: "0 < n div 2" by simp
    from "1.prems" have n0: "n \<noteq> 0" by simp
    from "1.IH" [OF n0 pos]
    have lo: "2 ^ (bit_length (n div 2) - 1) \<le> n div 2"
      and hi: "n div 2 < 2 ^ bit_length (n div 2)" by simp_all
    have bl: "bit_length n = Suc (bit_length (n div 2))"
      using n0 by (subst bit_length.simps) simp
    have blpos: "0 < bit_length (n div 2)"
      using pos by (subst bit_length.simps) simp
    then have S: "bit_length (n div 2) = Suc (bit_length (n div 2) - 1)" by simp
    have "2 ^ bit_length (n div 2) \<le> n"
    proof -
      have "2 ^ bit_length (n div 2) = 2 * 2 ^ (bit_length (n div 2) - 1)"
        by (subst S) simp
      also have "\<dots> \<le> 2 * (n div 2)" using lo by simp
      also have "\<dots> \<le> n" by simp
      finally show ?thesis .
    qed
    moreover have "n < 2 * 2 ^ bit_length (n div 2)"
      using hi by linarith
    ultimately show ?thesis by (simp add: bl)
  qed
qed

text \<open>
  The model of \<^verbatim>\<open>Number\<close> against the definition of the conversion: from \<open>2 ^ 53\<close>
  on, the result is \<open>m * 2 ^ e\<close> with \<open>m\<close> between \<open>2 ^ 52\<close> and \<open>2 ^ 53\<close>, which
  is a double; it is at most half a unit in the last place away from the argument, and
  \<open>m\<close> is even when the argument lies halfway between two such numbers.
\<close>

lemma js_Number_rounds:
  assumes big: "2 ^ 53 \<le> n"
  defines "e \<equiv> bit_length n - 53"
  shows "\<exists>m. js_Number n = m * 2 ^ e \<and> 2 ^ 52 \<le> m \<and> m \<le> 2 ^ 53 \<and>
           2 * (n - js_Number n) \<le> 2 ^ e \<and> 2 * (js_Number n - n) \<le> 2 ^ e \<and>
           (2 * (n - js_Number n) = 2 ^ e \<or> 2 * (js_Number n - n) = 2 ^ e \<longrightarrow> even m)"
proof -
  define q where "q = n div 2 ^ e"
  define r where "r = n mod 2 ^ e"
  from big have pos: "0 < n" by (simp add: less_le_trans [of 0 "2 ^ 53"])
  from bit_length_bounds [OF pos] have lo: "2 ^ (bit_length n - 1) \<le> n" and hi: "n < 2 ^ bit_length n"
    by simp_all
  have "(2::nat) ^ 53 < 2 ^ bit_length n" using big hi by linarith
  then have bl: "53 < bit_length n" by (rule power_less_imp_less_exp [rotated]) simp
  then have e1: "1 \<le> e" and ble: "bit_length n = e + 53" by (simp_all add: e_def)
  have n: "q * 2 ^ e + r = n"
    using div_mult_mod_eq [of n "2 ^ e"] by (simp add: q_def r_def)
  have r: "r < 2 ^ e" by (simp add: r_def)
  have twice: "2 * 2 ^ (e - 1) = (2::nat) ^ e"
    using e1 by (cases e) simp_all
  have lo': "2 ^ 52 * 2 ^ e \<le> n"
    using lo by (simp add: ble power_add mult.commute)
  have hi': "n < 2 ^ 53 * 2 ^ e"
    using hi by (simp add: ble power_add mult.commute)
  have qhi: "q < 2 ^ 53"
  proof (rule ccontr)
    assume "\<not> q < 2 ^ 53"
    then have "2 ^ 53 * 2 ^ e \<le> q * 2 ^ e" by simp
    with n hi' show False by linarith
  qed
  have qlo: "2 ^ 52 \<le> q"
  proof (rule ccontr)
    assume "\<not> 2 ^ 52 \<le> q"
    then have "q + 1 \<le> 2 ^ 52" by simp
    then have "(q + 1) * 2 ^ e \<le> 2 ^ 52 * 2 ^ e" by (rule mult_le_mono1)
    moreover have "(q + 1) * 2 ^ e = q * 2 ^ e + 2 ^ e" by (simp add: algebra_simps)
    ultimately show False using n r lo' by linarith
  qed
  have J: "js_Number n =
      (if r < 2 ^ (e - 1) \<or> (r = 2 ^ (e - 1) \<and> even q) then q else q + 1) * 2 ^ e"
    using big by (simp add: js_Number_def Let_def e_def q_def r_def)
  show ?thesis
  proof (cases "r < 2 ^ (e - 1) \<or> (r = 2 ^ (e - 1) \<and> even q)")
    case True
    then have res: "js_Number n = q * 2 ^ e" by (simp add: J)
    have d: "n - js_Number n = r" "js_Number n - n = 0" using n by (simp_all add: res)
    have "2 * r \<le> 2 ^ e" using True twice by linarith
    moreover have "2 * r = 2 ^ e \<longrightarrow> even q" using True twice by auto
    ultimately show ?thesis using qlo qhi res d by (intro exI [of _ q]) simp
  next
    case False
    then have res: "js_Number n = (q + 1) * 2 ^ e" by (simp add: J)
    have d: "n - js_Number n = 0" "js_Number n - n = 2 ^ e - r"
      using n r by (simp_all add: res algebra_simps)
    have "2 * (2 ^ e - r) \<le> 2 ^ e" using False twice r by linarith
    moreover have "2 * (2 ^ e - r) = 2 ^ e \<longrightarrow> even (q + 1)"
    proof
      assume "2 * (2 ^ e - r) = 2 ^ e"
      with twice r have "r = 2 ^ (e - 1)" by linarith
      with False show "even (q + 1)" by simp
    qed
    ultimately show ?thesis using qlo qhi res d by (intro exI [of _ "q + 1"]) simp
  qed
qed

lemma js_Number_exact_iff:
  "js_Number n = n \<longleftrightarrow> n < 2 ^ 53 \<or> 2 ^ (bit_length n - 53) dvd n"
proof (cases "n < 2 ^ 53")
  case True
  then show ?thesis by (simp add: js_Number_def)
next
  case False
  define e where "e = bit_length n - 53"
  define q where "q = n div 2 ^ e"
  define r where "r = n mod 2 ^ e"
  have n: "q * 2 ^ e + r = n"
    using div_mult_mod_eq [of n "2 ^ e"] by (simp add: q_def r_def)
  have r: "r < 2 ^ e"
    by (simp add: r_def)
  have half: "0 < (2::nat) ^ (e - 1)" by simp
  have J: "js_Number n =
      (if r < 2 ^ (e - 1) \<or> (r = 2 ^ (e - 1) \<and> even q) then q else q + 1) * 2 ^ e"
    using False by (simp add: js_Number_def Let_def e_def q_def r_def)
  have "js_Number n = n \<longleftrightarrow> 2 ^ e dvd n"
  proof (cases "r = 0")
    case True
    with n have "q * 2 ^ e = n" by simp
    moreover from this have "2 ^ e dvd n" by (metis dvd_triv_right)
    moreover have "js_Number n = q * 2 ^ e" using True half by (simp add: J)
    ultimately show ?thesis by simp
  next
    case nz: False
    then have nd: "\<not> 2 ^ e dvd n" by (simp add: r_def dvd_eq_mod_eq_0)
    have "q * 2 ^ e < n" using nz n by linarith
    moreover have "n < (q + 1) * 2 ^ e" using r n by (simp add: algebra_simps)
    ultimately have "js_Number n \<noteq> n" by (auto simp: J)
    with nd show ?thesis by simp
  qed
  with False show ?thesis by (simp add: e_def)
qed

lemma bit_length_2_53: "bit_length (2 ^ 53) = 54"
  by (simp add: bit_length.simps)

lemma js_Number_exact_upto_2_53: "n \<le> 2 ^ 53 \<Longrightarrow> js_Number n = n"
proof (cases "n < 2 ^ 53")
  case True
  then show ?thesis by (simp add: js_Number_def)
next
  case False
  assume "n \<le> 2 ^ 53"
  with False have n: "n = 2 ^ 53" by simp
  have "js_Number (2 ^ 53) = 2 ^ 53"
    unfolding js_Number_exact_iff bit_length_2_53 by simp
  with n show ?thesis by simp
qed

lemma switchToPreferredNetwork_run:
  "wallet_getAddresses env (world s) = (Inr as, w1) \<Longrightarrow>
   contract_read_getPreferredNetwork env (first as) w1 = (Inr p, w2) \<Longrightarrow>
   calls (snd (switchToPreferredNetwork env s)) =
     calls s @ [GetAddresses, ReadGetPreferredNetwork (first as),
                SwitchChain (js_Number (unat p))]"
  by (simp add: switchToPreferredNetwork_def async_defs split: prod.splits)

lemma payOnPreferedNetwork_switch:
  "contract_read_getPreferredNetwork env (Some A) (world s) = (Inr p, w1) \<Longrightarrow>
   \<exists>rest. calls (snd (payOnPreferedNetwork env A v s)) =
     calls s @ ReadGetPreferredNetwork (Some A) # SwitchChain (js_Number (unat p)) # rest"
  by (auto simp: payOnPreferedNetwork_def payAddress_def async_defs split: prod.splits sum.splits)

text \<open>
  C10, as stated: a stored preference above \<open>2 ^ 53 - 1\<close> is switched to under a
  different identifier. The stored preference \<open>2 ^ 53\<close> is above \<open>2 ^ 53 - 1\<close>, and
  \<^verbatim>\<open>payOnPreferedNetwork\<close> passes exactly \<open>2 ^ 53\<close> to \<^verbatim>\<open>switchChain\<close>.
\<close>

theorem switch_exact_at_2_53:
  "calls (snd (payOnPreferedNetwork (local_env [10] no_names) 11 100
      \<lparr>world = transact [Tx 11 (2 ^ 53)] deployed, calls = [], watchers = []\<rparr>)) ! 1 =
     SwitchChain (unat (getPreferredNetwork_sol (transact [Tx 11 (2 ^ 53)] deployed) 11)) \<and>
   \<not> unat (getPreferredNetwork_sol (transact [Tx 11 (2 ^ 53)] deployed) 11) \<le> 2 ^ 53 - 1"
  by (simp add: payOnPreferedNetwork_def payAddress_def async_defs local_defs
      js_Number_exact_upto_2_53)

text \<open>
  C10, amended. In \<^verbatim>\<open>switchToPreferredNetwork\<close> and in \<^verbatim>\<open>payOnPreferedNetwork\<close> the
  chain id passed to \<^verbatim>\<open>switchChain\<close> is \<^verbatim>\<open>Number\<close> of the preference that the read
  returned. It equals the preference whenever the preference is at most \<open>2 ^ 53\<close>; for
  a larger preference it equals it exactly when the preference is a multiple of
  \<open>2 ^ (k - 53)\<close>, \<open>k\<close> being its length in bits, and differs from it otherwise.
\<close>

theorem switch_chain_id:
  "(wallet_getAddresses env (world s) = (Inr as, w1) \<longrightarrow>
    contract_read_getPreferredNetwork env (first as) w1 = (Inr p, w2) \<longrightarrow>
    calls (snd (switchToPreferredNetwork env s)) =
      calls s @ [GetAddresses, ReadGetPreferredNetwork (first as),
                 SwitchChain (js_Number (unat p))]) \<and>
   (contract_read_getPreferredNetwork env (Some A) (world s) = (Inr p, w3) \<longrightarrow>
    (\<exists>rest. calls (snd (payOnPreferedNetwork env A v s)) =
       calls s @ ReadGetPreferredNetwork (Some A) # SwitchChain (js_Number (unat p)) # rest)) \<and>
   (unat p \<le> 2 ^ 53 \<longrightarrow> js_Number (unat p) = unat p) \<and>
   (js_Number (unat p) = unat p \<longleftrightarrow>
      unat p < 2 ^ 53 \<or> 2 ^ (bit_length (unat p) - 53) dvd unat p)"
  using switchToPreferredNetwork_run [of env s as w1 p w2]
    payOnPreferedNetwork_switch [of env A s p w3 v]
    js_Number_exact_upto_2_53 [of "unat p"] js_Number_exact_iff [of "unat p"]
  by blast

theorem switch_chain_id_witness:
  "calls (snd (switchToPreferredNetwork (local_env [10] no_names)
      \<lparr>world = transact [Tx 10 (2 ^ 53 + 1)] deployed, calls = [], watchers = []\<rparr>)) =
     [GetAddresses, ReadGetPreferredNetwork (Some 10), SwitchChain (2 ^ 53)] \<and>
   (\<exists>rest. calls (snd (payOnPreferedNetwork (local_env [10] no_names) 10 1
      \<lparr>world = transact [Tx 10 (2 ^ 53 + 1)] deployed, calls = [], watchers = []\<rparr>)) =
     ReadGetPreferredNetwork (Some 10) # SwitchChain (2 ^ 53) # rest) \<and>
   js_Number (unat (2 ^ 53 + 1 :: uint)) \<noteq> unat (2 ^ 53 + 1 :: uint) \<and>
   js_Number (unat (5 :: uint)) = unat (5 :: uint)"
proof -
  let ?env = "local_env [10] no_names"
  let ?w = "transact [Tx 10 (2 ^ 53 + 1)] deployed"
  let ?s = "\<lparr>world = ?w, calls = [], watchers = []\<rparr>"
  have u: "unat (2 ^ 53 + 1 :: uint) = 2 ^ 53 + 1"
    by simp
  have J: "js_Number (2 ^ 53 + 1) = 2 ^ 53"
    by (simp add: js_Number_def Let_def bit_length.simps)
  have 1: "wallet_getAddresses ?env (world ?s) = (Inr [10], ?w)"
    by (simp add: local_env_def)
  have 2: "contract_read_getPreferredNetwork ?env (first [10]) ?w = (Inr (2 ^ 53 + 1), ?w)"
    by (simp add: local_defs)
  have 3: "unat (5 :: uint) \<le> 2 ^ 53"
    by simp
  have 4: "contract_read_getPreferredNetwork ?env (Some 10) (world ?s) = (Inr (2 ^ 53 + 1), ?w)"
    by (simp add: local_defs)
  note inst = switch_chain_id [of ?env ?s "[10]" ?w "2 ^ 53 + 1" ?w 10 ?w 1]
  from inst 1 2
  have a: "calls (snd (switchToPreferredNetwork ?env ?s)) =
      calls ?s @ [GetAddresses, ReadGetPreferredNetwork (first [10]),
                 SwitchChain (js_Number (unat (2 ^ 53 + 1 :: uint)))]"
    by blast
  from inst 4
  have p: "\<exists>rest. calls (snd (payOnPreferedNetwork ?env 10 1 ?s)) =
      calls ?s @ ReadGetPreferredNetwork (Some 10) #
        SwitchChain (js_Number (unat (2 ^ 53 + 1 :: uint))) # rest"
    by blast
  from switch_chain_id [of ?env ?s "[10]" ?w 5 ?w] 3
  have b: "js_Number (unat (5 :: uint)) = unat (5 :: uint)"
    by blast
  have c: "js_Number (unat (2 ^ 53 + 1 :: uint)) \<noteq> unat (2 ^ 53 + 1 :: uint)"
    unfolding u J by simp
  have d: "js_Number (unat (2 ^ 53 + 1 :: uint)) = 2 ^ 53"
    unfolding u J by simp
  from a p b c show ?thesis
    unfolding d by (simp add: first_def)
qed

end
